theory Spec2Isabelle
  imports Main "HOL-Library.AList" "HOL-Library.Sublist"
begin

section \<open>Data of testvalidator.py\<close>

text \<open>
  A parsed JSON document, as Python's decoder returns it: \<open>None\<close>, \<open>bool\<close>, a number,
  \<open>str\<close>, \<open>list\<close> or \<open>dict\<close>. Only integers stand for numbers: a float behaves like
  an integer in every operation of this program (it is no container and never equals a
  \<open>str\<close>). A \<open>dict\<close> is kept as the list of its items.
\<close>

datatype json =
    JNull
  | JBool bool
  | JNum int
  | JStr string
  | JArr "json list"
  | JObj "(string \<times> json) list"

text \<open>The four calls of the HTTP library that \<open>test_endpoint\<close> makes.\<close>

datatype http_method = GET | POST | PUT | DELETE

record request =
  req_method :: http_method
  req_url :: string
  req_json :: "json option"

text \<open>
  What \<open>test_endpoint\<close> reads of a response: \<open>response.status_code\<close>, the value of
  \<open>response.headers.get("Content-Type")\<close> (\<open>None\<close> when the header is absent) and the
  outcome of \<open>response.json()\<close>, which is either the parsed document or the message of the
  decode error.
\<close>

record response =
  status_code :: int
  content_type :: "string option"
  resp_json :: "string + json"

text \<open>
  The exceptions of the program. \<open>RequestException\<close> stands for
  \<open>requests.RequestException\<close> and all its subclasses, and carries \<open>str(e)\<close>.
  The decode error of \<open>response.json()\<close> is \<open>requests.exceptions.JSONDecodeError\<close>,
  a subclass of \<open>RequestException\<close> (Requests 2.27 and later).
\<close>

datatype py_exception =
    RequestException string
  | ValueError string
  | TypeError string
  | KeyError string

text \<open>The values stored in a result dictionary, and the dictionary in insertion order.\<close>

datatype pyval = VStr string | VInt int | VBool bool | VList "string list"

type_synonym result = "(string \<times> pyval) list"

text \<open>
  The network. A client answers a request from the current state of the world with a
  response or with the message of a \<open>RequestException\<close>, and leaves a new state of the
  world. \<open>sent\<close> logs every request handed to the client, oldest first.
\<close>

type_synonym 'w client = "'w \<Rightarrow> request \<Rightarrow> (string + response) \<times> 'w"

record 'w net =
  world :: 'w
  sent :: "request list"

definition requests_call :: "'w client \<Rightarrow> request \<Rightarrow> 'w net \<Rightarrow> (py_exception + response) \<times> 'w net" where
  "requests_call client req st =
     (case client (world st) req of
        (out, w') \<Rightarrow>
          ((case out of Inl msg \<Rightarrow> Inl (RequestException msg) | Inr resp \<Rightarrow> Inr resp),
           \<lparr>world = w', sent = sent st @ [req]\<rparr>))"

section \<open>test\_endpoint\<close>

text \<open>
  Python's \<open>key in json_data\<close> for a \<open>str\<close> key: a key of a \<open>dict\<close>, an element of a
  \<open>list\<close> equal to the key, a substring of a \<open>str\<close>; \<open>TypeError\<close> on \<open>None\<close>, a
  \<open>bool\<close> or a number.
\<close>

fun py_in :: "string \<Rightarrow> json \<Rightarrow> py_exception + bool" where
  "py_in key (JObj items) = Inr (key \<in> fst ` set items)"
| "py_in key (JArr xs) = Inr (JStr key \<in> set xs)"
| "py_in key (JStr s) = Inr (sublist key s)"
| "py_in key JNull = Inl (TypeError ''argument of type 'NoneType' is not iterable'')"
| "py_in key (JBool b) = Inl (TypeError ''argument of type 'bool' is not iterable'')"
| "py_in key (JNum n) = Inl (TypeError ''argument of type 'int' is not iterable'')"

text \<open>\<open>all(key in json_data for key in expected_keys)\<close>: stops at the first absent key.\<close>

fun all_keys_in :: "string list \<Rightarrow> json \<Rightarrow> py_exception + bool" where
  "all_keys_in [] json_data = Inr True"
| "all_keys_in (key # keys) json_data =
     (case py_in key json_data of
        Inl e \<Rightarrow> Inl e
      | Inr b \<Rightarrow> if b then all_keys_in keys json_data else Inr False)"

text \<open>\<open>[key for key in expected_keys if key not in json_data]\<close>.\<close>

fun keys_not_in :: "string list \<Rightarrow> json \<Rightarrow> py_exception + string list" where
  "keys_not_in [] json_data = Inr []"
| "keys_not_in (key # keys) json_data =
     (case py_in key json_data of
        Inl e \<Rightarrow> Inl e
      | Inr b \<Rightarrow>
          (case keys_not_in keys json_data of
             Inl e \<Rightarrow> Inl e
           | Inr rest \<Rightarrow> Inr (if \<not> b then key # rest else rest)))"

text \<open>
  Lines 27 to 36: the branch on the method string. Any other string raises
  \<open>ValueError\<close> before a request is made.
\<close>

definition dispatch :: "'w client \<Rightarrow> string \<Rightarrow> string \<Rightarrow> json option \<Rightarrow> 'w net \<Rightarrow> (py_exception + response) \<times> 'w net" where
  "dispatch client url method payload st =
     (if method = ''GET'' then
        requests_call client \<lparr>req_method = GET, req_url = url, req_json = None\<rparr> st
      else if method = ''POST'' then
        requests_call client \<lparr>req_method = POST, req_url = url, req_json = payload\<rparr> st
      else if method = ''PUT'' then
        requests_call client \<lparr>req_method = PUT, req_url = url, req_json = payload\<rparr> st
      else if method = ''DELETE'' then
        requests_call client \<lparr>req_method = DELETE, req_url = url, req_json = None\<rparr> st
      else (Inl (ValueError ''Unsupported HTTP method''), st))"

text \<open>
  Lines 38 to 46: the content check. \<open>expected_keys\<close> is a list; the default \<open>None\<close> of
  the parameter is falsy like the empty list and is never iterated.
\<close>

definition content_check_of :: "string list \<Rightarrow> response \<Rightarrow> py_exception + bool \<times> string list" where
  "content_check_of expected_keys resp =
     (if expected_keys \<noteq> [] \<and> content_type resp = Some ''application/json'' then
        (case resp_json resp of
           Inl msg \<Rightarrow> Inl (RequestException msg)
         | Inr json_data \<Rightarrow>
             (case all_keys_in expected_keys json_data of
                Inl e \<Rightarrow> Inl e
              | Inr content_check \<Rightarrow>
                  (case keys_not_in expected_keys json_data of
                     Inl e \<Rightarrow> Inl e
                   | Inr missing_keys \<Rightarrow> Inr (content_check, missing_keys))))
      else Inr (True, []))"

text \<open>Lines 38 to 64: the result dictionary of a response.\<close>

definition check_response :: "string \<Rightarrow> string \<Rightarrow> int \<Rightarrow> string list \<Rightarrow> response \<Rightarrow> py_exception + result" where
  "check_response endpoint method expected_status expected_keys resp =
     (let status_check = (status_code resp = expected_status) in
      case content_check_of expected_keys resp of
        Inl e \<Rightarrow> Inl e
      | Inr (content_check, missing_keys) \<Rightarrow>
          Inr (AList.update ''result''
                 (VStr (if status_check \<and> content_check then ''PASS'' else ''FAIL''))
                 [(''endpoint'', VStr endpoint),
                  (''method'', VStr method),
                  (''status'', VInt (status_code resp)),
                  (''expected_status'', VInt expected_status),
                  (''status_check'', VBool status_check),
                  (''content_check'', VBool content_check),
                  (''missing_keys'', VList missing_keys)]))"

text \<open>Lines 66 to 72: the dictionary built by the handler of \<open>RequestException\<close>.\<close>

definition error_result :: "string \<Rightarrow> string \<Rightarrow> string \<Rightarrow> result" where
  "error_result endpoint method msg =
     [(''endpoint'', VStr endpoint),
      (''method'', VStr method),
      (''error'', VStr msg),
      (''result'', VStr ''ERROR'')]"

text \<open>
  \<open>test_endpoint\<close>: the \<open>try\<close> block and its only handler. An exception of another class
  leaves the function.
\<close>

definition test_endpoint :: "'w client \<Rightarrow> string \<Rightarrow> string \<Rightarrow> int \<Rightarrow> string list \<Rightarrow> string \<Rightarrow> json option \<Rightarrow> 'w net \<Rightarrow> (py_exception + result) \<times> 'w net" where
  "test_endpoint client base_url endpoint expected_status expected_keys method payload st =
     (let url = base_url @ endpoint in
      case dispatch client url method payload st of
        (r, st') \<Rightarrow>
          (case (case r of
                   Inl e \<Rightarrow> Inl e
                 | Inr resp \<Rightarrow> check_response endpoint method expected_status expected_keys resp) of
             Inl (RequestException msg) \<Rightarrow> (Inr (error_result endpoint method msg), st')
           | Inl e \<Rightarrow> (Inl e, st')
           | Inr res \<Rightarrow> (Inr res, st')))"

section \<open>run\_tests\<close>

text \<open>
  An endpoint dictionary: each key may be absent. \<open>ep['endpoint']\<close> raises \<open>KeyError\<close>
  when the key is absent; the other keys are read with \<open>get\<close> and a default.
\<close>

record endpoint_dict =
  ep_endpoint :: "string option"
  ep_expected_status :: "int option"
  ep_expected_keys :: "string list option"
  ep_method :: "string option"
  ep_payload :: "json option"

definition get_default :: "'a option \<Rightarrow> 'a \<Rightarrow> 'a" where
  "get_default v d = (case v of None \<Rightarrow> d | Some x \<Rightarrow> x)"

text \<open>
  Lines 81 to 90: the loop that fills \<open>results\<close>. The value is the list \<open>results\<close> after
  the loop, or the exception that left it. The summary printed afterwards reads
  \<open>results\<close> only.
\<close>

fun run_tests_loop :: "'w client \<Rightarrow> string \<Rightarrow> endpoint_dict list \<Rightarrow> result list \<Rightarrow> 'w net \<Rightarrow> (py_exception + result list) \<times> 'w net" where
  "run_tests_loop client base_url [] results st = (Inr results, st)"
| "run_tests_loop client base_url (ep # endpoints) results st =
     (case ep_endpoint ep of
        None \<Rightarrow> (Inl (KeyError ''endpoint''), st)
      | Some endpoint \<Rightarrow>
          (case test_endpoint client base_url endpoint
                  (get_default (ep_expected_status ep) 200)
                  (get_default (ep_expected_keys ep) [])
                  (get_default (ep_method ep) ''GET'')
                  (ep_payload ep) st of
             (Inl e, st') \<Rightarrow> (Inl e, st')
           | (Inr res, st') \<Rightarrow> run_tests_loop client base_url endpoints (results @ [res]) st'))"

definition run_tests :: "'w client \<Rightarrow> string \<Rightarrow> endpoint_dict list \<Rightarrow> 'w net \<Rightarrow> (py_exception + result list) \<times> 'w net" where
  "run_tests client base_url endpoints st = run_tests_loop client base_url endpoints [] st"


section \<open>Auxiliary definitions\<close>

text \<open>
  The dictionary that lines 49 to 64 return, written out: the seven entries of the
  literal followed by the verdict stored under \<open>result\<close>.
\<close>

definition full_result :: "string \<Rightarrow> string \<Rightarrow> int \<Rightarrow> int \<Rightarrow> bool \<Rightarrow> string list \<Rightarrow> result" where
  "full_result endpoint method status expected_status content_check missing_keys =
     [(''endpoint'', VStr endpoint),
      (''method'', VStr method),
      (''status'', VInt status),
      (''expected_status'', VInt expected_status),
      (''status_check'', VBool (status = expected_status)),
      (''content_check'', VBool content_check),
      (''missing_keys'', VList missing_keys),
      (''result'', VStr (if status = expected_status \<and> content_check then ''PASS'' else ''FAIL''))]"


text \<open>The method strings that \<open>test_endpoint\<close> dispatches.\<close>

definition supported_methods :: "string set" where
  "supported_methods = {''GET'', ''POST'', ''PUT'', ''DELETE''}"

text \<open>
  Following the words of the specification, not the code: a content-type header
  "indicates JSON" when it is present and its media type, the text before any
  parameter, is \<open>application/json\<close>. The code compares the whole header value instead
  (\<open>content_check_of\<close>).
\<close>

definition spec_indicates_json :: "string option \<Rightarrow> bool" where
  "spec_indicates_json header =
     (case header of
        None \<Rightarrow> False
      | Some v \<Rightarrow> takeWhile (\<lambda>c. c \<noteq> CHR '';'') v = ''application/json'')"

subsection \<open>A mock server\<close>

text \<open>
  A server whose answer is a function of the request; its world counts the requests
  it has served.
\<close>

definition mock_server :: "(request \<Rightarrow> string + response) \<Rightarrow> nat client" where
  "mock_server reply n req = (reply req, Suc n)"

definition net0 :: "nat net" where
  "net0 = \<lparr>world = 0, sent = []\<rparr>"

definition json_response :: "int \<Rightarrow> string \<Rightarrow> string + json \<Rightarrow> string + response" where
  "json_response status header body =
     Inr \<lparr>status_code = status, content_type = Some header, resp_json = body\<rparr>"

definition decode_error :: string where
  "decode_error = ''Expecting value: line 1 column 1 (char 0)''"

definition mock_reply :: "request \<Rightarrow> string + response" where
  "mock_reply req =
     (if req_url req = ''http://api/users'' then
        json_response 200 ''application/json''
          (Inr (JObj [(''id'', JNum 1), (''name'', JStr ''Ann''), (''extra'', JNull)]))
      else if req_url req = ''http://api/posts'' then
        json_response 404 ''application/json'' (Inl decode_error)
      else if req_url req = ''http://api/tags'' then
        json_response 200 ''application/json'' (Inr (JArr [JStr ''id'', JNum 7]))
      else if req_url req = ''http://api/items'' then
        json_response 200 ''application/json; charset=utf-8''
          (Inr (JObj [(''name'', JStr ''Ann'')]))
      else if req_url req = ''http://api/page'' then
        json_response 200 ''application/json; charset=utf-8'' (Inl decode_error)
      else Inl ''connection refused'')"

definition endpoint_of :: "string \<Rightarrow> string \<Rightarrow> string list \<Rightarrow> endpoint_dict" where
  "endpoint_of path method keys =
     \<lparr>ep_endpoint = Some path, ep_expected_status = Some 200,
      ep_expected_keys = Some keys, ep_method = Some method, ep_payload = None\<rparr>"

definition get_request :: "string \<Rightarrow> request" where
  "get_request url = \<lparr>req_method = GET, req_url = url, req_json = None\<rparr>"

section \<open>Lemmas about the key test and the loop\<close>

lemma keys_not_in_filter:
  "keys_not_in ks j = Inr mk \<Longrightarrow> mk = filter (\<lambda>k. py_in k j = Inr False) ks"
  by (induction ks arbitrary: mk) (auto split: sum.splits if_splits)

lemma all_keys_in_iff:
  "all_keys_in ks j = Inr cc \<Longrightarrow> keys_not_in ks j = Inr mk \<Longrightarrow> cc = (mk = [])"
  by (induction ks arbitrary: mk) (auto split: sum.splits if_splits)

lemma all_keys_in_obj: "all_keys_in ks (JObj items) = Inr (\<forall>k\<in>set ks. k \<in> fst ` set items)"
  by (induction ks) auto

lemma keys_not_in_obj: "keys_not_in ks (JObj items) = Inr (filter (\<lambda>k. k \<notin> fst ` set items) ks)"
  by (induction ks) auto

lemma all_keys_in_arr: "all_keys_in ks (JArr xs) = Inr (\<forall>k\<in>set ks. JStr k \<in> set xs)"
  by (induction ks) auto

lemma keys_not_in_arr: "keys_not_in ks (JArr xs) = Inr (filter (\<lambda>k. JStr k \<notin> set xs) ks)"
  by (induction ks) auto




lemma check_response_eq:
  "check_response e m s ks resp =
     (case content_check_of ks resp of
        Inl ex \<Rightarrow> Inl ex
      | Inr (cc, mk) \<Rightarrow> Inr (full_result e m (status_code resp) s cc mk))"
  by (simp add: check_response_def full_result_def Let_def split: sum.splits prod.splits)

lemma test_endpoint_cases:
  assumes "test_endpoint c b e s ks m p st = (Inr r, st')"
  shows "(\<exists>msg. r = error_result e m msg) \<or>
         (\<exists>resp cc mk. dispatch c (b @ e) m p st = (Inr resp, st') \<and>
             content_check_of ks resp = Inr (cc, mk) \<and>
             r = full_result e m (status_code resp) s cc mk)"
  using assms
  by (auto simp: test_endpoint_def check_response_eq split: prod.splits sum.splits py_exception.splits)

lemma test_endpoint_response:
  assumes "dispatch c (b @ e) m p st = (Inr resp, st')"
  shows "test_endpoint c b e s ks m p st =
     (case content_check_of ks resp of
        Inl (RequestException msg) \<Rightarrow> (Inr (error_result e m msg), st')
      | Inl ex \<Rightarrow> (Inl ex, st')
      | Inr (cc, mk) \<Rightarrow> (Inr (full_result e m (status_code resp) s cc mk), st'))"
  using assms
  by (simp add: test_endpoint_def check_response_eq split: sum.splits prod.splits py_exception.splits)

lemma content_check_of_missing:
  assumes "content_check_of ks resp = Inr (cc, mk)"
  shows "subseq mk ks \<and> cc = (mk = []) \<and> (mk \<noteq> [] \<longrightarrow> ks \<noteq> [])"
proof (cases "ks \<noteq> [] \<and> content_type resp = Some ''application/json''")
  case False
  with assms show ?thesis by (auto simp: content_check_of_def)
next
  case True
  with assms obtain j where j: "all_keys_in ks j = Inr cc" "keys_not_in ks j = Inr mk"
    by (auto simp: content_check_of_def split: sum.splits)
  from j(2) have "mk = filter (\<lambda>k. py_in k j = Inr False) ks" by (rule keys_not_in_filter)
  then have "subseq mk ks" by simp
  moreover from j have "cc = (mk = [])" by (rule all_keys_in_iff)
  ultimately show ?thesis using True by simp
qed

lemma run_tests_loop_acc:
  "run_tests_loop c b eps acc st =
     (case run_tests_loop c b eps [] st of
        (Inl ex, s) \<Rightarrow> (Inl ex, s)
      | (Inr rs, s) \<Rightarrow> (Inr (acc @ rs), s))"
proof (induction eps arbitrary: acc st)
  case Nil
  show ?case by simp
next
  case (Cons ep eps)
  show ?case
    by (simp add: Cons.IH [of "acc @ _"] Cons.IH [of "[_]"] split: option.splits prod.splits sum.splits)
qed

lemma run_tests_Nil: "run_tests c b [] st = (Inr [], st)"
  by (simp add: run_tests_def)

lemma run_tests_Cons:
  "run_tests c b (ep # eps) st =
     (case ep_endpoint ep of
        None \<Rightarrow> (Inl (KeyError ''endpoint''), st)
      | Some e \<Rightarrow>
          (case test_endpoint c b e (get_default (ep_expected_status ep) 200)
                  (get_default (ep_expected_keys ep) []) (get_default (ep_method ep) ''GET'')
                  (ep_payload ep) st of
             (Inl ex, s) \<Rightarrow> (Inl ex, s)
           | (Inr r, s) \<Rightarrow>
               (case run_tests c b eps s of
                  (Inl ex, s') \<Rightarrow> (Inl ex, s')
                | (Inr rs, s') \<Rightarrow> (Inr (r # rs), s'))))"
  by (simp add: run_tests_def run_tests_loop_acc [of _ _ _ "[_]"] split: option.splits prod.splits sum.splits)

lemma run_tests_append:
  "run_tests c b (xs @ ys) st =
     (case run_tests c b xs st of
        (Inl ex, s) \<Rightarrow> (Inl ex, s)
      | (Inr rs, s) \<Rightarrow>
          (case run_tests c b ys s of
             (Inl ex, s') \<Rightarrow> (Inl ex, s')
           | (Inr rs', s') \<Rightarrow> (Inr (rs @ rs'), s')))"
proof (induction xs arbitrary: st)
  case Nil
  show ?case by (simp add: run_tests_Nil split: prod.splits sum.splits)
next
  case (Cons x xs)
  show ?case
    by (simp add: run_tests_Cons Cons.IH split: option.splits prod.splits sum.splits)
qed

lemmas fixture_defs = mock_server_def net0_def json_response_def decode_error_def
  mock_reply_def endpoint_of_def get_request_def

lemmas code_defs = test_endpoint_def dispatch_def requests_call_def check_response_def
  content_check_of_def error_result_def full_result_def get_default_def

section \<open>Unsupported methods\<close>

text \<open>
  C1, as stated, fails. The claim: an endpoint whose method is not GET, POST, PUT or
  DELETE makes no network call, is recorded as verdict ERROR (or an equivalent local
  failure), and \<open>run_tests\<close> still tests every later endpoint. On the list of a PATCH
  endpoint followed by a GET endpoint, \<open>run_tests\<close> ends with the \<open>ValueError\<close>: no
  result is recorded for either endpoint and no request is ever sent, so the GET
  endpoint is not tested.
\<close>

theorem unsupported_method_counterexample:
  "run_tests (mock_server mock_reply) ''http://api''
     [endpoint_of ''/users'' ''PATCH'' [''id''], endpoint_of ''/users'' ''GET'' [''id'']] net0 =
   (Inl (ValueError ''Unsupported HTTP method''), net0)"
  by (simp add: run_tests_def code_defs fixture_defs)

text \<open>
  C1, amended. For a method other than GET, POST, PUT and DELETE, \<open>test_endpoint\<close> makes
  no network call (the network state, with its log of requests, is unchanged) and raises
  \<open>ValueError\<close>, which its handler does not catch. \<open>run_tests\<close> stops there with that
  error: the endpoints before it have been tested, those after it are not.
\<close>

theorem unsupported_method_raises:
  assumes "method \<notin> supported_methods"
    and "ep_endpoint ep = Some endpoint"
    and "ep_method ep = Some method"
    and "run_tests client base_url earlier st = (Inr results, st')"
  shows "test_endpoint client base_url endpoint expected_status expected_keys method payload st' =
           (Inl (ValueError ''Unsupported HTTP method''), st') \<and>
         run_tests client base_url (earlier @ ep # later) st =
           (Inl (ValueError ''Unsupported HTTP method''), st')"
proof -
  have t: "test_endpoint client base_url endpoint s ks method p st' =
             (Inl (ValueError ''Unsupported HTTP method''), st')" for s ks p
    using assms(1) by (simp add: test_endpoint_def dispatch_def supported_methods_def)
  have "run_tests client base_url (ep # later) st' =
          (Inl (ValueError ''Unsupported HTTP method''), st')"
    using assms(2,3) by (simp add: run_tests_Cons t get_default_def)
  then show ?thesis
    using assms(4) t by (simp add: run_tests_append)
qed

theorem unsupported_method_raises_witness:
  "run_tests (mock_server mock_reply) ''http://api''
     ([endpoint_of ''/users'' ''GET'' [''id'']] @ endpoint_of ''/tags'' ''HEAD'' [] # [endpoint_of ''/items'' ''GET'' []]) net0 =
   (Inl (ValueError ''Unsupported HTTP method''),
    \<lparr>world = 1, sent = [get_request ''http://api/users'']\<rparr>)"
proof -
  have h1: "''HEAD'' \<notin> supported_methods" by (simp add: supported_methods_def)
  have h2: "ep_endpoint (endpoint_of ''/tags'' ''HEAD'' []) = Some ''/tags''"
    by (simp add: endpoint_of_def)
  have h3: "ep_method (endpoint_of ''/tags'' ''HEAD'' []) = Some ''HEAD''"
    by (simp add: endpoint_of_def)
  have h4: "run_tests (mock_server mock_reply) ''http://api'' [endpoint_of ''/users'' ''GET'' [''id'']] net0 =
      (Inr [full_result ''/users'' ''GET'' 200 200 True []],
       \<lparr>world = 1, sent = [get_request ''http://api/users'']\<rparr>)"
    by (simp add: run_tests_def code_defs fixture_defs)
  show ?thesis
    using unsupported_method_raises [OF h1 h2 h3 h4] by simp
qed

section \<open>The verdict\<close>

text \<open>
  C2, as stated, fails. The claim: whenever a response was obtained the verdict is PASS
  or FAIL, and it is FAIL whenever the status differs from the expected one. The
  request for \<open>/posts\<close> obtains a response with status 404, expected 200, that declares
  \<open>application/json\<close> and has a body that does not parse: the verdict is ERROR, and the
  result carries no \<open>status_check\<close>.
\<close>

theorem verdict_counterexample:
  "fst (dispatch (mock_server mock_reply) (''http://api'' @ ''/posts'') ''GET'' None net0) =
     Inr \<lparr>status_code = 404, content_type = Some ''application/json'', resp_json = Inl decode_error\<rparr> \<and>
   (404::int) \<noteq> 200 \<and>
   fst (test_endpoint (mock_server mock_reply) ''http://api'' ''/posts'' 200 [''id''] ''GET'' None net0) =
     Inr [(''endpoint'', VStr ''/posts''), (''method'', VStr ''GET''),
          (''error'', VStr decode_error), (''result'', VStr ''ERROR'')]"
  by (simp add: code_defs fixture_defs)

text \<open>
  C2, amended. For every endpoint test in which a response was obtained and the content
  check completed (it was skipped, or the body parsed and the key test ran), the verdict
  is PASS iff \<open>status_check\<close> and \<open>content_check\<close> both hold and FAIL otherwise; for
  such a test, whenever the status differs from the expected status, \<open>status_check\<close> is
  false and the verdict is FAIL whatever the content check says.
\<close>

theorem verdict_of_checked_response:
  assumes "dispatch client (base_url @ endpoint) method payload st = (Inr resp, st')"
    and "content_check_of expected_keys resp = Inr (content_check, missing_keys)"
  shows "\<exists>r. test_endpoint client base_url endpoint expected_status expected_keys method payload st = (Inr r, st') \<and>
           map_of r ''status_check'' = Some (VBool (status_code resp = expected_status)) \<and>
           map_of r ''content_check'' = Some (VBool content_check) \<and>
           map_of r ''result'' =
             Some (VStr (if status_code resp = expected_status \<and> content_check then ''PASS'' else ''FAIL'')) \<and>
           (status_code resp \<noteq> expected_status \<longrightarrow>
              map_of r ''status_check'' = Some (VBool False) \<and>
              map_of r ''result'' = Some (VStr ''FAIL''))"
  using assms by (simp add: test_endpoint_response full_result_def)

theorem verdict_of_checked_response_witness:
  "\<exists>r. test_endpoint (mock_server mock_reply) ''http://api'' ''/tags'' 201 [''id'', ''email''] ''GET'' None net0 =
          (Inr r, \<lparr>world = 1, sent = [get_request ''http://api/tags'']\<rparr>) \<and>
        map_of r ''status_check'' = Some (VBool False) \<and>
        map_of r ''content_check'' = Some (VBool False) \<and>
        map_of r ''result'' = Some (VStr ''FAIL'')"
proof -
  have h1: "dispatch (mock_server mock_reply) (''http://api'' @ ''/tags'') ''GET'' None net0 =
      (Inr \<lparr>status_code = 200, content_type = Some ''application/json'',
             resp_json = Inr (JArr [JStr ''id'', JNum 7])\<rparr>,
       \<lparr>world = 1, sent = [get_request ''http://api/tags'']\<rparr>)"
    by (simp add: code_defs fixture_defs)
  have h2: "content_check_of [''id'', ''email'']
      \<lparr>status_code = 200, content_type = Some ''application/json'',
        resp_json = Inr (JArr [JStr ''id'', JNum 7])\<rparr> = Inr (False, [''email''])"
    by (simp add: content_check_of_def)
  show ?thesis
    using verdict_of_checked_response [OF h1 h2, of 201] by auto
qed

section \<open>The content check\<close>

text \<open>
  C3. The claim: for every response whose content-type header indicates JSON and every
  non-empty \<open>expected_keys\<close>, \<open>content_check\<close> is true iff every expected key is a
  top-level key of the parsed object, and \<open>missing_keys\<close> is the subsequence of
  \<open>expected_keys\<close> absent from the object. The code misses it on a header with a
  parameter: line 43 compares the whole header value with \<open>application/json\<close>, although
  its comment announces a check of the keys of a JSON response. The response for
  \<open>/items\<close> has the header \<open>application/json; charset=utf-8\<close> and the body of an object
  without the key \<open>id\<close>; with \<open>id\<close> expected, the code gives \<open>content_check\<close> true,
  \<open>missing_keys\<close> empty and the verdict PASS, where the claim gives \<open>content_check\<close>
  false and \<open>missing_keys\<close> \<open>[id]\<close>.
\<close>

theorem charset_header_skips_key_check:
  "fst (dispatch (mock_server mock_reply) (''http://api'' @ ''/items'') ''GET'' None net0) =
     Inr \<lparr>status_code = 200, content_type = Some ''application/json; charset=utf-8'',
          resp_json = Inr (JObj [(''name'', JStr ''Ann'')])\<rparr> \<and>
   spec_indicates_json (Some ''application/json; charset=utf-8'') \<and>
   ''id'' \<notin> fst ` set [(''name'', JStr ''Ann'')] \<and>
   fst (test_endpoint (mock_server mock_reply) ''http://api'' ''/items'' 200 [''id''] ''GET'' None net0) =
     Inr [(''endpoint'', VStr ''/items''), (''method'', VStr ''GET''),
          (''status'', VInt 200), (''expected_status'', VInt 200),
          (''status_check'', VBool True), (''content_check'', VBool True),
          (''missing_keys'', VList []), (''result'', VStr ''PASS'')]"
  by (simp add: code_defs fixture_defs spec_indicates_json_def)

text \<open>
  Everywhere else the code computes what the claim says. When the header is exactly
  \<open>application/json\<close>, or does not indicate JSON, or \<open>expected_keys\<close> is empty, and the
  body that is parsed is an object, \<open>content_check\<close> and \<open>missing_keys\<close> have the values
  of the claim.
\<close>

lemma key_check_agrees_off_parameters:
  assumes "dispatch client (base_url @ endpoint) method payload st = (Inr resp, st')"
    and "content_type resp = Some ''application/json'' \<or>
         \<not> spec_indicates_json (content_type resp) \<or> expected_keys = []"
    and "expected_keys \<noteq> [] \<and> content_type resp = Some ''application/json'' \<longrightarrow>
           resp_json resp = Inr (JObj items)"
  shows "\<exists>r. test_endpoint client base_url endpoint expected_status expected_keys method payload st = (Inr r, st') \<and>
           map_of r ''content_check'' =
             Some (VBool (if spec_indicates_json (content_type resp) \<and> expected_keys \<noteq> []
                          then \<forall>k\<in>set expected_keys. k \<in> fst ` set items else True)) \<and>
           map_of r ''missing_keys'' =
             Some (VList (if spec_indicates_json (content_type resp) \<and> expected_keys \<noteq> []
                          then filter (\<lambda>k. k \<notin> fst ` set items) expected_keys else []))"
proof (cases "expected_keys \<noteq> [] \<and> content_type resp = Some ''application/json''")
  case True
  then have ind: "spec_indicates_json (content_type resp)"
    by (simp add: spec_indicates_json_def)
  from True assms(3) have "content_check_of expected_keys resp =
      Inr (\<forall>k\<in>set expected_keys. k \<in> fst ` set items, filter (\<lambda>k. k \<notin> fst ` set items) expected_keys)"
    by (simp add: content_check_of_def all_keys_in_obj keys_not_in_obj)
  with True ind assms(1) show ?thesis
    by (simp add: test_endpoint_response full_result_def)
next
  case False
  then have c: "content_check_of expected_keys resp = Inr (True, [])"
    by (auto simp add: content_check_of_def)
  from False assms(2) have "\<not> (spec_indicates_json (content_type resp) \<and> expected_keys \<noteq> [])"
    by auto
  with c assms(1) show ?thesis
    by (simp add: test_endpoint_response full_result_def)
qed

lemma key_check_on_users:
  "\<exists>r. test_endpoint (mock_server mock_reply) ''http://api'' ''/users'' 200 [''id'', ''email'', ''name'', ''postId''] ''GET'' None net0 =
          (Inr r, \<lparr>world = 1, sent = [get_request ''http://api/users'']\<rparr>) \<and>
        map_of r ''content_check'' = Some (VBool False) \<and>
        map_of r ''missing_keys'' = Some (VList [''email'', ''postId''])"
proof -
  let ?resp = "\<lparr>status_code = 200, content_type = Some ''application/json'',
                resp_json = Inr (JObj [(''id'', JNum 1), (''name'', JStr ''Ann''), (''extra'', JNull)])\<rparr>"
  have h1: "dispatch (mock_server mock_reply) (''http://api'' @ ''/users'') ''GET'' None net0 =
      (Inr ?resp, \<lparr>world = 1, sent = [get_request ''http://api/users'']\<rparr>)"
    by (simp add: code_defs fixture_defs)
  have h2: "content_type ?resp = Some ''application/json'' \<or>
      \<not> spec_indicates_json (content_type ?resp) \<or> [''id'', ''email'', ''name'', ''postId''] = []"
    by simp
  have h3: "[''id'', ''email'', ''name'', ''postId''] \<noteq> [] \<and> content_type ?resp = Some ''application/json'' \<longrightarrow>
      resp_json ?resp = Inr (JObj [(''id'', JNum 1), (''name'', JStr ''Ann''), (''extra'', JNull)])"
    by simp
  show ?thesis
    using key_check_agrees_off_parameters [OF h1 h2 h3, of 200]
    by (auto simp add: spec_indicates_json_def)
qed

section \<open>A body that does not parse\<close>

text \<open>
  C4. The claim: for every endpoint test whose response declares a JSON content-type
  with non-empty \<open>expected_keys\<close> and whose body fails to parse as JSON, the test ends
  with verdict ERROR carrying the description of the error, and the remaining endpoints
  are still tested. The code misses it on a header with a parameter, by the comparison
  of line 43 again: the response for \<open>/page\<close> declares
  \<open>application/json; charset=utf-8\<close> and its body does not parse; with \<open>id\<close> expected,
  the body is never parsed and the verdict is PASS, where the claim gives ERROR.
\<close>

theorem charset_header_skips_parse:
  "fst (dispatch (mock_server mock_reply) (''http://api'' @ ''/page'') ''GET'' None net0) =
     Inr \<lparr>status_code = 200, content_type = Some ''application/json; charset=utf-8'',
          resp_json = Inl decode_error\<rparr> \<and>
   spec_indicates_json (Some ''application/json; charset=utf-8'') \<and>
   fst (test_endpoint (mock_server mock_reply) ''http://api'' ''/page'' 200 [''id''] ''GET'' None net0) =
     Inr [(''endpoint'', VStr ''/page''), (''method'', VStr ''GET''),
          (''status'', VInt 200), (''expected_status'', VInt 200),
          (''status_check'', VBool True), (''content_check'', VBool True),
          (''missing_keys'', VList []), (''result'', VStr ''PASS'')]"
  by (simp add: code_defs fixture_defs spec_indicates_json_def)

text \<open>
  When the header is exactly \<open>application/json\<close> the code does what the claim says: the
  test returns the ERROR result that carries the description of the decode error, and
  \<open>run_tests\<close> goes on with the remaining endpoints.
\<close>

lemma decode_failure_is_error:
  assumes "ep_endpoint ep = Some endpoint"
    and "get_default (ep_expected_keys ep) [] = expected_keys"
    and "get_default (ep_method ep) ''GET'' = method"
    and "dispatch client (base_url @ endpoint) method (ep_payload ep) st = (Inr resp, st')"
    and "expected_keys \<noteq> []"
    and "content_type resp = Some ''application/json''"
    and "resp_json resp = Inl msg"
  shows "test_endpoint client base_url endpoint (get_default (ep_expected_status ep) 200)
           expected_keys method (ep_payload ep) st =
           (Inr [(''endpoint'', VStr endpoint), (''method'', VStr method),
                 (''error'', VStr msg), (''result'', VStr ''ERROR'')], st') \<and>
         run_tests client base_url (ep # later) st =
           (case run_tests client base_url later st' of
              (Inl e, st'') \<Rightarrow> (Inl e, st'')
            | (Inr rs, st'') \<Rightarrow>
                (Inr ([(''endpoint'', VStr endpoint), (''method'', VStr method),
                       (''error'', VStr msg), (''result'', VStr ''ERROR'')] # rs), st''))"
proof -
  have c: "content_check_of expected_keys resp = Inl (RequestException msg)"
    using assms(5-7) by (simp add: content_check_of_def)
  have t: "test_endpoint client base_url endpoint (get_default (ep_expected_status ep) 200)
             expected_keys method (ep_payload ep) st = (Inr (error_result endpoint method msg), st')"
    using assms(4) c by (simp add: test_endpoint_response)
  show ?thesis
    using t assms(1-3) by (simp add: run_tests_Cons error_result_def)
qed

lemma decode_failure_on_posts:
  "run_tests (mock_server mock_reply) ''http://api''
     [endpoint_of ''/posts'' ''GET'' [''id''], endpoint_of ''/tags'' ''GET'' [''id'']] net0 =
   (Inr [[(''endpoint'', VStr ''/posts''), (''method'', VStr ''GET''),
          (''error'', VStr decode_error), (''result'', VStr ''ERROR'')],
         full_result ''/tags'' ''GET'' 200 200 True []],
    \<lparr>world = 2, sent = [get_request ''http://api/posts'', get_request ''http://api/tags'']\<rparr>)"
proof -
  let ?ep = "endpoint_of ''/posts'' ''GET'' [''id'']"
  let ?resp = "\<lparr>status_code = 404, content_type = Some ''application/json'', resp_json = Inl decode_error\<rparr>"
  let ?st = "\<lparr>world = 1, sent = [get_request ''http://api/posts'']\<rparr>"
  have h1: "ep_endpoint ?ep = Some ''/posts''" by (simp add: endpoint_of_def)
  have h2: "get_default (ep_expected_keys ?ep) [] = [''id'']"
    by (simp add: endpoint_of_def get_default_def)
  have h3: "get_default (ep_method ?ep) ''GET'' = ''GET''"
    by (simp add: endpoint_of_def get_default_def)
  have h4: "dispatch (mock_server mock_reply) (''http://api'' @ ''/posts'') ''GET'' (ep_payload ?ep) net0 =
      (Inr ?resp, ?st)"
    by (simp add: code_defs fixture_defs)
  have h5: "[''id''] \<noteq> []" by simp
  have h6: "content_type ?resp = Some ''application/json''" by simp
  have h7: "resp_json ?resp = Inl decode_error" by simp
  have later: "run_tests (mock_server mock_reply) ''http://api'' [endpoint_of ''/tags'' ''GET'' [''id'']] ?st =
      (Inr [full_result ''/tags'' ''GET'' 200 200 True []],
       \<lparr>world = 2, sent = [get_request ''http://api/posts'', get_request ''http://api/tags'']\<rparr>)"
    by (simp add: run_tests_def code_defs fixture_defs)
  show ?thesis
    using decode_failure_is_error [OF h1 h2 h3 h4 h5 h6 h7, of "[endpoint_of ''/tags'' ''GET'' [''id'']]"] later
    by simp
qed

section \<open>The fields of an ERROR result\<close>

text \<open>
  C9. For every endpoint test that ends in verdict ERROR, the returned dictionary has
  exactly the fields \<open>endpoint\<close>, \<open>method\<close>, \<open>error\<close> and \<open>result\<close>, in this order; the
  fields \<open>status\<close>, \<open>expected_status\<close>, \<open>status_check\<close>, \<open>content_check\<close> and
  \<open>missing_keys\<close> are absent.
\<close>

theorem error_result_fields:
  assumes "test_endpoint client base_url endpoint expected_status expected_keys method payload st = (Inr r, st')"
    and "map_of r ''result'' = Some (VStr ''ERROR'')"
  shows "map fst r = [''endpoint'', ''method'', ''error'', ''result''] \<and>
         map_of r ''status'' = None \<and> map_of r ''expected_status'' = None \<and>
         map_of r ''status_check'' = None \<and> map_of r ''content_check'' = None \<and>
         map_of r ''missing_keys'' = None"
proof -
  from test_endpoint_cases [OF assms(1)] assms(2)
  obtain msg where "r = error_result endpoint method msg"
    by (auto simp: full_result_def split: if_splits)
  then show ?thesis by (simp add: error_result_def)
qed

theorem error_result_fields_witness:
  "\<exists>r st'. test_endpoint (mock_server mock_reply) ''http://api'' ''/missing'' 200 [''id''] ''POST''
              (Some (JObj [(''name'', JStr ''Ann'')])) net0 = (Inr r, st') \<and>
     map_of r ''result'' = Some (VStr ''ERROR'') \<and>
     map fst r = [''endpoint'', ''method'', ''error'', ''result''] \<and>
     map_of r ''status_check'' = None"
proof -
  let ?r = "[(''endpoint'', VStr ''/missing''), (''method'', VStr ''POST''),
             (''error'', VStr ''connection refused''), (''result'', VStr ''ERROR'')]"
  let ?req = "\<lparr>req_method = POST, req_url = ''http://api/missing'',
               req_json = Some (JObj [(''name'', JStr ''Ann'')])\<rparr>"
  have h1: "test_endpoint (mock_server mock_reply) ''http://api'' ''/missing'' 200 [''id''] ''POST''
              (Some (JObj [(''name'', JStr ''Ann'')])) net0 =
      (Inr ?r, \<lparr>world = 1, sent = [?req]\<rparr>)"
    by (simp add: code_defs fixture_defs)
  have h2: "map_of ?r ''result'' = Some (VStr ''ERROR'')" by simp
  note fields = error_result_fields [OF h1 h2]
  show ?thesis
  proof (intro exI conjI)
    show "test_endpoint (mock_server mock_reply) ''http://api'' ''/missing'' 200 [''id''] ''POST''
            (Some (JObj [(''name'', JStr ''Ann'')])) net0 =
          (Inr ?r, \<lparr>world = 1, sent = [?req]\<rparr>)"
      by (rule h1)
    show "map_of ?r ''result'' = Some (VStr ''ERROR'')" by (rule h2)
    show "map fst ?r = [''endpoint'', ''method'', ''error'', ''result'']"
      using fields by simp
    show "map_of ?r ''status_check'' = None"
      using fields by simp
  qed
qed

section \<open>The content check on a JSON array\<close>

text \<open>
  C10. For every response whose Content-Type header is exactly \<open>application/json\<close> and
  every non-empty \<open>expected_keys\<close>, if the body parses to a JSON array, then
  \<open>content_check\<close> is true iff every key of \<open>expected_keys\<close> equals some element of the
  array, and \<open>missing_keys\<close> lists the keys that equal no element.
\<close>

theorem content_check_of_array:
  assumes "dispatch client (base_url @ endpoint) method payload st = (Inr resp, st')"
    and "content_type resp = Some ''application/json''"
    and "expected_keys \<noteq> []"
    and "resp_json resp = Inr (JArr xs)"
  shows "\<exists>r. test_endpoint client base_url endpoint expected_status expected_keys method payload st = (Inr r, st') \<and>
           map_of r ''content_check'' = Some (VBool (\<forall>k\<in>set expected_keys. JStr k \<in> set xs)) \<and>
           map_of r ''missing_keys'' = Some (VList (filter (\<lambda>k. JStr k \<notin> set xs) expected_keys))"
proof -
  have "content_check_of expected_keys resp =
      Inr (\<forall>k\<in>set expected_keys. JStr k \<in> set xs, filter (\<lambda>k. JStr k \<notin> set xs) expected_keys)"
    using assms(2-4) by (simp add: content_check_of_def all_keys_in_arr keys_not_in_arr)
  with assms(1) show ?thesis
    by (simp add: test_endpoint_response full_result_def)
qed

theorem content_check_of_array_witness:
  "\<exists>r. test_endpoint (mock_server mock_reply) ''http://api'' ''/tags'' 200 [''id'', ''email''] ''GET'' None net0 =
          (Inr r, \<lparr>world = 1, sent = [get_request ''http://api/tags'']\<rparr>) \<and>
        map_of r ''content_check'' = Some (VBool False) \<and>
        map_of r ''missing_keys'' = Some (VList [''email''])"
proof -
  let ?resp = "\<lparr>status_code = 200, content_type = Some ''application/json'',
                resp_json = Inr (JArr [JStr ''id'', JNum 7])\<rparr>"
  have h1: "dispatch (mock_server mock_reply) (''http://api'' @ ''/tags'') ''GET'' None net0 =
      (Inr ?resp, \<lparr>world = 1, sent = [get_request ''http://api/tags'']\<rparr>)"
    by (simp add: code_defs fixture_defs)
  have h2: "content_type ?resp = Some ''application/json''" by simp
  have h3: "[''id'', ''email''] \<noteq> []" by simp
  have h4: "resp_json ?resp = Inr (JArr [JStr ''id'', JNum 7])" by simp
  show ?thesis
    using content_check_of_array [OF h1 h2 h3 h4, of 200] by auto
qed

section \<open>Missing keys\<close>

text \<open>
  C6. For every endpoint test result that has \<open>missing_keys\<close>, the list is a subsequence
  of \<open>expected_keys\<close>: each of its elements occurs in \<open>expected_keys\<close>, in the same
  relative order.
\<close>

theorem missing_keys_subseq:
  assumes "test_endpoint client base_url endpoint expected_status expected_keys method payload st = (Inr r, st')"
    and "map_of r ''missing_keys'' = Some (VList missing_keys)"
  shows "subseq missing_keys expected_keys"
proof -
  from test_endpoint_cases [OF assms(1)] assms(2)
  obtain resp cc mk where c: "content_check_of expected_keys resp = Inr (cc, mk)"
    and r: "r = full_result endpoint method (status_code resp) expected_status cc mk"
    by (auto simp: error_result_def)
  from r assms(2) have "missing_keys = mk" by (simp add: full_result_def)
  with content_check_of_missing [OF c] show ?thesis by simp
qed

theorem missing_keys_subseq_witness:
  "\<exists>r st'. test_endpoint (mock_server mock_reply) ''http://api'' ''/users'' 200
              [''id'', ''email'', ''name'', ''postId''] ''GET'' None net0 = (Inr r, st') \<and>
     map_of r ''missing_keys'' = Some (VList [''email'', ''postId'']) \<and>
     subseq [''email'', ''postId''] [''id'', ''email'', ''name'', ''postId'']"
proof -
  let ?r = "full_result ''/users'' ''GET'' 200 200 False [''email'', ''postId'']"
  have h1: "test_endpoint (mock_server mock_reply) ''http://api'' ''/users'' 200
              [''id'', ''email'', ''name'', ''postId''] ''GET'' None net0 =
      (Inr ?r, \<lparr>world = 1, sent = [get_request ''http://api/users'']\<rparr>)"
    by (simp add: code_defs fixture_defs)
  have h2: "map_of ?r ''missing_keys'' = Some (VList [''email'', ''postId''])"
    by (simp add: full_result_def)
  show ?thesis
    using missing_keys_subseq [OF h1 h2] h1 h2 by blast
qed

text \<open>
  C7. For every endpoint test result, if \<open>missing_keys\<close> is non-empty then
  \<open>content_check\<close> is false and \<open>expected_keys\<close> is non-empty.
\<close>

theorem missing_keys_nonempty:
  assumes "test_endpoint client base_url endpoint expected_status expected_keys method payload st = (Inr r, st')"
    and "map_of r ''missing_keys'' = Some (VList missing_keys)"
    and "missing_keys \<noteq> []"
  shows "map_of r ''content_check'' = Some (VBool False) \<and> expected_keys \<noteq> []"
proof -
  from test_endpoint_cases [OF assms(1)] assms(2)
  obtain resp cc mk where c: "content_check_of expected_keys resp = Inr (cc, mk)"
    and r: "r = full_result endpoint method (status_code resp) expected_status cc mk"
    by (auto simp: error_result_def)
  from r assms(2) have "missing_keys = mk" by (simp add: full_result_def)
  with content_check_of_missing [OF c] assms(3) have "\<not> cc" and "expected_keys \<noteq> []"
    by simp_all
  with r show ?thesis by (simp add: full_result_def)
qed

theorem missing_keys_nonempty_witness:
  "\<exists>r st'. test_endpoint (mock_server mock_reply) ''http://api'' ''/tags'' 200
              [''name'', ''id''] ''DELETE'' None net0 = (Inr r, st') \<and>
     map_of r ''missing_keys'' = Some (VList [''name'']) \<and>
     map_of r ''content_check'' = Some (VBool False)"
proof -
  let ?r = "full_result ''/tags'' ''DELETE'' 200 200 False [''name'']"
  have h1: "test_endpoint (mock_server mock_reply) ''http://api'' ''/tags'' 200
              [''name'', ''id''] ''DELETE'' None net0 =
      (Inr ?r, \<lparr>world = 1, sent = [\<lparr>req_method = DELETE, req_url = ''http://api/tags'', req_json = None\<rparr>]\<rparr>)"
    by (simp add: code_defs fixture_defs)
  have h2: "map_of ?r ''missing_keys'' = Some (VList [''name''])"
    by (simp add: full_result_def)
  have h3: "[''name''] \<noteq> []" by simp
  show ?thesis
    using missing_keys_nonempty [OF h1 h2 h3] h1 h2 by blast
qed

section \<open>The results of a run\<close>







section \<open>Two runs against a deterministic server\<close>

lemma requests_call_deterministic:
  assumes "\<forall>w w' req. fst (client w req) = fst (client w' req)"
  shows "fst (requests_call client req st1) = fst (requests_call client req st2)"
proof -
  from assms have "fst (client (world st1) req) = fst (client (world st2) req)" by blast
  then show ?thesis
    by (cases "client (world st1) req"; cases "client (world st2) req")
       (simp add: requests_call_def)
qed

lemma dispatch_deterministic:
  assumes "\<forall>w w' req. fst (client w req) = fst (client w' req)"
  shows "fst (dispatch client url method payload st1) = fst (dispatch client url method payload st2)"
  using requests_call_deterministic [OF assms] by (simp add: dispatch_def)

lemma test_endpoint_fst:
  "fst (test_endpoint c b e s ks m p st) =
     (case (case fst (dispatch c (b @ e) m p st) of
              Inl ex \<Rightarrow> Inl ex
            | Inr resp \<Rightarrow> check_response e m s ks resp) of
        Inl (RequestException msg) \<Rightarrow> Inr (error_result e m msg)
      | Inl ex \<Rightarrow> Inl ex
      | Inr res \<Rightarrow> Inr res)"
  by (simp add: test_endpoint_def split: prod.splits sum.splits py_exception.splits)

lemma test_endpoint_deterministic:
  assumes "\<forall>w w' req. fst (client w req) = fst (client w' req)"
  shows "fst (test_endpoint client b e s ks m p st1) = fst (test_endpoint client b e s ks m p st2)"
  by (simp only: test_endpoint_fst dispatch_deterministic [OF assms, of _ _ _ st1 st2])

lemma run_tests_deterministic:
  assumes "\<forall>w w' req. fst (client w req) = fst (client w' req)"
  shows "fst (run_tests client b eps st1) = fst (run_tests client b eps st2)"
proof (induction eps arbitrary: st1 st2)
  case Nil
  show ?case by (simp add: run_tests_Nil)
next
  case (Cons ep eps)
  show ?case
  proof (cases "ep_endpoint ep")
    case None
    then show ?thesis by (simp add: run_tests_Cons)
  next
    case (Some e)
    let ?t = "\<lambda>st. test_endpoint client b e (get_default (ep_expected_status ep) 200)
                  (get_default (ep_expected_keys ep) []) (get_default (ep_method ep) ''GET'')
                  (ep_payload ep) st"
    have t: "fst (?t st1) = fst (?t st2)"
      by (rule test_endpoint_deterministic [OF assms])
    obtain o1 s1 where 1: "?t st1 = (o1, s1)" by (cases "?t st1")
    obtain o2 s2 where 2: "?t st2 = (o2, s2)" by (cases "?t st2")
    from t 1 2 have o: "o1 = o2" by simp
    have ih: "fst (run_tests client b eps s1) = fst (run_tests client b eps s2)"
      by (rule Cons.IH)
    show ?thesis
      using Some 1 2 o ih
      by (auto simp add: run_tests_Cons split: sum.splits prod.splits)
  qed
qed

text \<open>
  C8. When the answer of the server to a request is a function of the request alone,
  whatever the state of the world, a second run of \<open>run_tests\<close> on the same endpoints,
  started where the first run left the world, has the same outcome as the first: the
  same list of results in the same order (or the same exception).
\<close>

theorem run_tests_repeatable:
  assumes "\<forall>w w' req. fst (client w req) = fst (client w' req)"
  shows "fst (run_tests client base_url endpoints (snd (run_tests client base_url endpoints st))) =
         fst (run_tests client base_url endpoints st)"
  by (rule run_tests_deterministic [OF assms])

theorem run_tests_repeatable_witness:
  "snd (run_tests (mock_server mock_reply) ''http://api''
          [endpoint_of ''/users'' ''GET'' [''id'', ''email''], endpoint_of ''/posts'' ''GET'' [''id'']] net0) =
     \<lparr>world = 2, sent = [get_request ''http://api/users'', get_request ''http://api/posts'']\<rparr> \<and>
   fst (run_tests (mock_server mock_reply) ''http://api''
          [endpoint_of ''/users'' ''GET'' [''id'', ''email''], endpoint_of ''/posts'' ''GET'' [''id'']]
          \<lparr>world = 2, sent = [get_request ''http://api/users'', get_request ''http://api/posts'']\<rparr>) =
     Inr [full_result ''/users'' ''GET'' 200 200 False [''email''],
          error_result ''/posts'' ''GET'' decode_error]"
proof -
  let ?eps = "[endpoint_of ''/users'' ''GET'' [''id'', ''email''], endpoint_of ''/posts'' ''GET'' [''id'']]"
  have h: "\<forall>w w' req. fst (mock_server mock_reply w req) = fst (mock_server mock_reply w' req)"
    by (simp add: mock_server_def)
  have first: "run_tests (mock_server mock_reply) ''http://api'' ?eps net0 =
      (Inr [full_result ''/users'' ''GET'' 200 200 False [''email''],
            error_result ''/posts'' ''GET'' decode_error],
       \<lparr>world = 2, sent = [get_request ''http://api/users'', get_request ''http://api/posts'']\<rparr>)"
    by (simp add: run_tests_def code_defs fixture_defs)
  show ?thesis
    using run_tests_repeatable [OF h, of "''http://api''" ?eps net0] first by simp
qed

end
